theory Spec2Isabelle
  imports Main "HOL-Library.Word"
begin

section \<open>Strings and values of the host language\<close>

text \<open>
  A string of the program is a sequence of 16-bit code units; its \<open>length\<close> property is the
  length of that sequence. \<open>str\<close> embeds an ASCII literal of the source.
\<close>

type_synonym code_unit = "16 word"
type_synonym jsstring = "code_unit list"

definition str :: "string \<Rightarrow> jsstring" where
  "str s = map of_char s"

text \<open>
  The values a field of type \<open>any\<close> may hold at run time, as far as the validator
  distinguishes them: \<open>typeof v === 'string'\<close> holds of \<open>JString\<close> only, and
  \<open>v === true\<close> holds of \<open>JBoolean True\<close> only.
\<close>

datatype js_value =
    JString jsstring
  | JBoolean bool
  | JNumber int
  | JUndefined
  | JNull

text \<open>The decimal digits of a natural number, most significant first.\<close>

fun decimal_digits :: "nat \<Rightarrow> jsstring" where
  "decimal_digits n =
     (if n < 10 then [of_nat (48 + n)]
      else decimal_digits (n div 10) @ [of_nat (48 + n mod 10)])"

declare decimal_digits.simps [simp del]

text \<open>
  A bound of the \<open>hasLength\<close> configuration is a non-negative safe integer
  (\<open>Number.isSafeInteger\<close>): one of \<open>0\<close>, ..., \<open>2^53 - 1\<close>, the values of a 53-bit word read
  by \<open>unat\<close>. These are the integers that the number type of the language holds exactly
  and that it prints as their exact decimal digits, which is what \<open>number_to_string\<close>
  gives. A number from \<open>2^53\<close> on, which the language may round and prints in rounded
  digits or, from \<open>10^21\<close> on, in exponent notation, is not a value of this type: the
  model says nothing about configurations with such bounds.
\<close>

type_synonym safe_integer = "53 word"

definition number_to_string :: "safe_integer \<Rightarrow> jsstring" where
  "number_to_string n = decimal_digits (unat n)"

text \<open>
  Interpolation \<open>${n}\<close> of a bound in a template literal. A bound that was left out of the
  configuration is \<open>undefined\<close>, here \<open>None\<close>.
\<close>

definition template_number :: "safe_integer option \<Rightarrow> jsstring" where
  "template_number x = (case x of None \<Rightarrow> str ''undefined'' | Some n \<Rightarrow> number_to_string n)"

text \<open>
  Comparisons of the field's length with a bound. \<open>L < undefined\<close> and \<open>L > undefined\<close>
  are false, \<open>L !== undefined\<close> is true, and \<open>!!+undefined\<close> is false as \<open>!!+0\<close> is.
\<close>

definition js_less :: "nat \<Rightarrow> safe_integer option \<Rightarrow> bool" where
  "js_less l x = (case x of None \<Rightarrow> False | Some n \<Rightarrow> l < unat n)"

definition js_greater :: "nat \<Rightarrow> safe_integer option \<Rightarrow> bool" where
  "js_greater l x = (case x of None \<Rightarrow> False | Some n \<Rightarrow> l > unat n)"

definition js_strict_neq :: "nat \<Rightarrow> safe_integer option \<Rightarrow> bool" where
  "js_strict_neq l x = (case x of None \<Rightarrow> True | Some n \<Rightarrow> l \<noteq> unat n)"

definition js_truthy_number :: "safe_integer option \<Rightarrow> bool" where
  "js_truthy_number x = (case x of None \<Rightarrow> False | Some n \<Rightarrow> n \<noteq> 0)"

section \<open>The message table\<close>

datatype Language = EN | RU

type_synonym ILangObject = "Language \<Rightarrow> jsstring"

definition errorTextMessages_hasLength_min :: "safe_integer option \<Rightarrow> ILangObject" where
  "errorTextMessages_hasLength_min minLength = (\<lambda>lang. case lang of
      EN \<Rightarrow> str ''Should be more than or equal to '' @ template_number minLength @ str '' symbols''
    | RU \<Rightarrow> [0x041A, 0x043E, 0x043B, 0x0438, 0x0447, 0x0435, 0x0441, 0x0442, 0x0432, 0x043E,
            0x0020, 0x0441, 0x0438, 0x043C, 0x0432, 0x043E, 0x043B, 0x043E, 0x0432, 0x0020,
            0x0434, 0x043E, 0x043B, 0x0436, 0x043D, 0x043E, 0x0020, 0x0431, 0x044B, 0x0442,
            0x044C, 0x0020, 0x0431, 0x043E, 0x043B, 0x044C, 0x0448, 0x0435, 0x0020, 0x0438,
            0x043B, 0x0438, 0x0020, 0x0440, 0x0430, 0x0432, 0x043D, 0x043E, 0x0020]
          @ template_number minLength)"

definition errorTextMessages_hasLength_max :: "safe_integer option \<Rightarrow> ILangObject" where
  "errorTextMessages_hasLength_max maxLength = (\<lambda>lang. case lang of
      EN \<Rightarrow> str ''Should be no more than '' @ template_number maxLength @ str '' symbols''
    | RU \<Rightarrow> [0x041A, 0x043E, 0x043B, 0x0438, 0x0447, 0x0435, 0x0441, 0x0442, 0x0432, 0x043E,
            0x0020, 0x0441, 0x0438, 0x043C, 0x0432, 0x043E, 0x043B, 0x043E, 0x0432, 0x0020,
            0x043D, 0x0435, 0x0020, 0x0434, 0x043E, 0x043B, 0x0436, 0x043D, 0x043E, 0x0020,
            0x043F, 0x0440, 0x0435, 0x0432, 0x044B, 0x0448, 0x0430, 0x0442, 0x044C, 0x0020]
          @ template_number maxLength)"

definition errorTextMessages_hasLength_exact :: "safe_integer option \<Rightarrow> ILangObject" where
  "errorTextMessages_hasLength_exact exactLength = (\<lambda>lang. case lang of
      EN \<Rightarrow> str ''Should be exactly '' @ template_number exactLength @ str '' symbols''
    | RU \<Rightarrow> [0x041A, 0x043E, 0x043B, 0x0438, 0x0447, 0x0435, 0x0441, 0x0442, 0x0432, 0x043E,
            0x0020, 0x0441, 0x0438, 0x043C, 0x0432, 0x043E, 0x043B, 0x043E, 0x0432, 0x0020,
            0x0434, 0x043E, 0x043B, 0x0436, 0x043D, 0x043E, 0x0020, 0x0442, 0x043E, 0x0447,
            0x043D, 0x043E, 0x0020, 0x0440, 0x0430, 0x0432, 0x043D, 0x044F, 0x0442, 0x044C,
            0x0441, 0x044F, 0x0020]
          @ template_number exactLength)"

definition errorTextMessages_isAlpha :: ILangObject where
  "errorTextMessages_isAlpha = (\<lambda>lang. case lang of
      EN \<Rightarrow> str ''Should contain only alphabetic letters''
    | RU \<Rightarrow> [])"

definition errorTextMessages_isEmail :: ILangObject where
  "errorTextMessages_isEmail = (\<lambda>lang. case lang of
      EN \<Rightarrow> str ''Incorrect email address''
    | RU \<Rightarrow> [0x041D, 0x0435, 0x0432, 0x0435, 0x0440, 0x043D, 0x044B, 0x0439, 0x0020, 0x0430,
            0x0434, 0x0440, 0x0435, 0x0441, 0x0020, 0x044D, 0x043B, 0x0435, 0x043A, 0x0442,
            0x0440, 0x043E, 0x043D, 0x043D, 0x043E, 0x0439, 0x0020, 0x043F, 0x043E, 0x0447,
            0x0442, 0x044B])"

section \<open>Regular expressions of the checks\<close>

text \<open>
  Both patterns of the source are anchored at \<open>^\<close> and \<open>$\<close> and are sequences of single
  characters and of character classes under \<open>*\<close> or \<open>+\<close>. A pattern is the list of its
  pieces; \<open>regex_test\<close> says whether the whole string matches, which is what
  \<open>RegExp.prototype.test\<close> returns for an anchored pattern without the multiline flag.
  The literal of \<open>isAlpha\<close> carries the flag \<open>g\<close>, but a literal evaluated inside a method
  is a fresh object with \<open>lastIndex = 0\<close> at every call, so the search starts at the first
  character each time.
\<close>

datatype piece =
    OneChar code_unit
  | ZeroOrMore "code_unit \<Rightarrow> bool"
  | OneOrMore "code_unit \<Rightarrow> bool"

fun regex_test :: "piece list \<Rightarrow> jsstring \<Rightarrow> bool" where
  "regex_test [] s = (s = [])"
| "regex_test (OneChar c # ps) [] = False"
| "regex_test (OneChar c # ps) (x # xs) = (x = c \<and> regex_test ps xs)"
| "regex_test (ZeroOrMore cls # ps) [] = regex_test ps []"
| "regex_test (ZeroOrMore cls # ps) (x # xs) =
     ((cls x \<and> regex_test (ZeroOrMore cls # ps) xs) \<or> regex_test ps (x # xs))"
| "regex_test (OneOrMore cls # ps) [] = False"
| "regex_test (OneOrMore cls # ps) (x # xs) = (cls x \<and> regex_test (ZeroOrMore cls # ps) xs)"

text \<open>
  The class \<open>\s\<close>: the white space and line terminator code units of the language.
\<close>

definition is_white_space :: "code_unit \<Rightarrow> bool" where
  "is_white_space c =
     (c \<in> set [0x0009, 0x000A, 0x000B, 0x000C, 0x000D, 0x0020, 0x00A0, 0x1680,
               0x2028, 0x2029, 0x202F, 0x205F, 0x3000, 0xFEFF]
      \<or> (0x2000 \<le> c \<and> c \<le> 0x200A))"

text \<open>The class \<open>[^\s@]\<close>.\<close>

definition not_space_or_at :: "code_unit \<Rightarrow> bool" where
  "not_space_or_at c = (\<not> (is_white_space c \<or> c = 0x40))"

text \<open>
  The class \<open>[a-z]\<close> under the flag \<open>i\<close>: both the character and the members of the class
  are canonicalised, which maps \<open>a\<close>..\<open>z\<close> to \<open>A\<close>..\<open>Z\<close>. Without the flag \<open>u\<close> a code unit
  from 128 on is never canonicalised to one below 128, so only the ASCII letters reach
  \<open>A\<close>..\<open>Z\<close>.
\<close>

definition canonicalize :: "code_unit \<Rightarrow> code_unit" where
  "canonicalize c = (if 0x61 \<le> c \<and> c \<le> 0x7A then c - 0x20 else c)"

definition a_to_z_ignore_case :: "code_unit \<Rightarrow> bool" where
  "a_to_z_ignore_case c = (0x41 \<le> canonicalize c \<and> canonicalize c \<le> 0x5A)"

definition isAlpha_regex :: "piece list" where
  "isAlpha_regex = [ZeroOrMore a_to_z_ignore_case]"

definition isEmail_regex :: "piece list" where
  "isEmail_regex =
     [OneOrMore not_space_or_at, OneChar 0x40, OneOrMore not_space_or_at, OneChar 0x2E,
      OneOrMore not_space_or_at]"

section \<open>The validator\<close>

text \<open>
  The bound \<open>HTMLInputElement\<close>, as far as the validator reads and writes it: its \<open>value\<close>
  and the entry \<open>isValid\<close> of its \<open>dataset\<close> (\<open>None\<close> while never written).
\<close>

record InputElement =
  input_value :: js_value
  dataset_isValid :: "jsstring option"

text \<open>
  The configuration of \<open>hasLength\<close>: each bound is a non-negative safe integer or absent. The
  entry of the rule set is declared \<open>any\<close>: besides a configuration object it may be a
  primitive (\<open>false\<close>, \<open>0\<close>, \<open>true\<close>, ...), of which every property reads \<open>undefined\<close>
  and of which only the truthiness is kept here, or \<open>undefined\<close>/\<open>null\<close>, of which
  reading a property raises a \<open>TypeError\<close>. The entries of \<open>isAlpha\<close> and \<open>isEmail\<close>
  are only tested for truthiness.
\<close>

record hasLength_rule =
  exact_len :: "safe_integer option"
  min_len :: "safe_integer option"
  max_len :: "safe_integer option"

datatype hasLength_entry = Bounds hasLength_rule | PrimitiveEntry bool | NullishEntry

datatype ValidatorRules = Rule_hasLength | Rule_isAlpha | Rule_isEmail

fun rule_key :: "ValidatorRules \<Rightarrow> jsstring" where
  "rule_key Rule_hasLength = str ''hasLength''"
| "rule_key Rule_isAlpha = str ''isAlpha''"
| "rule_key Rule_isEmail = str ''isEmail''"

record IValidatorRules =
  rule_hasLength :: hasLength_entry
  rule_isAlpha :: bool
  rule_isEmail :: bool

record IValidatorSettings =
  currentLanguage :: Language

record ErrorEntry =
  checkName :: jsstring
  message :: jsstring

text \<open>
  The handler \<open>onValidationFinish\<close> belongs to the caller; the validator's state records
  each call of it with the argument it was given, oldest first.
\<close>

record InputValidator =
  input :: "InputElement option"
  validatorRules :: IValidatorRules
  onValidationFinish_calls :: "ErrorEntry list list"
  validatorSettings :: IValidatorSettings
  errors :: "ErrorEntry list"

datatype js_error = InputNotString | CheckNameMissing | TypeError

text \<open>
  A method returns the state it leaves behind, with the exception it threw if it threw one.
\<close>

type_synonym outcome = "js_error option \<times> InputValidator"

definition default_rules :: IValidatorRules where
  "default_rules =
     \<lparr>rule_hasLength = Bounds \<lparr>exact_len = Some 0, min_len = Some 0, max_len = Some 0\<rparr>,
      rule_isAlpha = False, rule_isEmail = False\<rparr>"

text \<open>
  The constructor merges the rules it is given over the defaults, key by key; \<open>None\<close> is a
  key that the argument does not have.
\<close>

definition new_InputValidator ::
  "InputElement \<Rightarrow> hasLength_entry option \<Rightarrow> bool option \<Rightarrow> bool option \<Rightarrow> Language option
     \<Rightarrow> InputValidator" where
  "new_InputValidator el hl al em lang =
     \<lparr>input = Some el,
      validatorRules =
        \<lparr>rule_hasLength = (case hl of None \<Rightarrow> rule_hasLength default_rules | Some x \<Rightarrow> x),
         rule_isAlpha = (case al of None \<Rightarrow> rule_isAlpha default_rules | Some x \<Rightarrow> x),
         rule_isEmail = (case em of None \<Rightarrow> rule_isEmail default_rules | Some x \<Rightarrow> x)\<rparr>,
      onValidationFinish_calls = [],
      validatorSettings = \<lparr>currentLanguage = (case lang of None \<Rightarrow> EN | Some l \<Rightarrow> l)\<rparr>,
      errors = []\<rparr>"

definition isValid :: "InputValidator \<Rightarrow> bool" where
  "isValid v = (errors v = [])"

definition validationErrors :: "InputValidator \<Rightarrow> ErrorEntry list" where
  "validationErrors v = errors v"

definition addError :: "jsstring \<Rightarrow> jsstring \<Rightarrow> InputValidator \<Rightarrow> InputValidator" where
  "addError name msg v = v\<lparr>errors := errors v @ [\<lparr>checkName = name, message = msg\<rparr>]\<rparr>"

definition validateCheck :: "jsstring \<Rightarrow> InputValidator \<Rightarrow> InputValidator" where
  "validateCheck name v = v\<lparr>errors := filter (\<lambda>error. checkName error \<noteq> name) (errors v)\<rparr>"

text \<open>
  The guard every method starts with: \<open>!this.input || typeof this.input.value !== 'string'\<close>.
  \<open>string_value\<close> is the field's value when the guard lets the method go on.
\<close>

definition string_value :: "InputValidator \<Rightarrow> jsstring option" where
  "string_value v =
     (case input v of
        None \<Rightarrow> None
      | Some el \<Rightarrow> (case input_value el of JString s \<Rightarrow> Some s | _ \<Rightarrow> None))"

text \<open>Reading \<open>min\<close>, \<open>max\<close> and \<open>exact\<close> off the entry of the rule set.\<close>

definition read_bounds :: "hasLength_entry \<Rightarrow> hasLength_rule option" where
  "read_bounds e =
     (case e of
        Bounds b \<Rightarrow> Some b
      | PrimitiveEntry t \<Rightarrow> Some \<lparr>exact_len = None, min_len = None, max_len = None\<rparr>
      | NullishEntry \<Rightarrow> None)"

definition hasLength :: "InputValidator \<Rightarrow> outcome" where
  "hasLength v =
     (case string_value v of
        None \<Rightarrow> (Some InputNotString, v)
      | Some s \<Rightarrow>
          (case read_bounds (rule_hasLength (validatorRules v)) of
             None \<Rightarrow> (Some TypeError, v)
           | Some b \<Rightarrow>
               (let methodName = str ''hasLength'' in
                if js_less (length s) (min_len b) then
                  (None, addError methodName
                     (errorTextMessages_hasLength_min (min_len b)
                        (currentLanguage (validatorSettings v))) v)
                else if js_truthy_number (max_len b) \<and> js_greater (length s) (max_len b) then
                  (None, addError methodName
                     (str ''Should be no more than '' @ template_number (max_len b)
                        @ str '' symbols'') v)
                else if js_truthy_number (exact_len b) \<and> js_strict_neq (length s) (exact_len b) then
                  (None, addError methodName
                     (str ''Should be exactly '' @ template_number (exact_len b)
                        @ str '' symbols'') v)
                else (None, validateCheck methodName v))))"

definition isAlpha :: "InputValidator \<Rightarrow> outcome" where
  "isAlpha v =
     (case string_value v of
        None \<Rightarrow> (Some InputNotString, v)
      | Some s \<Rightarrow>
          (let methodName = str ''isAlpha'' in
           if \<not> regex_test isAlpha_regex s then
             (None, addError methodName (str ''Should contain only alphabetic letters'') v)
           else (None, validateCheck methodName v)))"

definition isEmail :: "InputValidator \<Rightarrow> outcome" where
  "isEmail v =
     (case string_value v of
        None \<Rightarrow> (Some InputNotString, v)
      | Some s \<Rightarrow>
          (let methodName = str ''isEmail'' in
           if \<not> regex_test isEmail_regex s then
             (None, addError methodName (str ''Incorrect email address'') v)
           else (None, validateCheck methodName v)))"

text \<open>
  \<open>customCheck\<close>: the predicate is the caller's and may return any value; only the boolean
  \<open>true\<close> passes (\<open>fn(value) !== true\<close>). An empty \<open>errorMessage\<close> is falsy and gives way
  to the default text.
\<close>

definition customCheck ::
  "(jsstring \<Rightarrow> js_value) \<Rightarrow> jsstring \<Rightarrow> jsstring \<Rightarrow> InputValidator \<Rightarrow> outcome" where
  "customCheck fn name errorMessage v =
     (case string_value v of
        None \<Rightarrow> (Some InputNotString, v)
      | Some s \<Rightarrow>
          if name = [] then (Some CheckNameMissing, v)
          else if fn s \<noteq> JBoolean True then
            (None, addError name
               (if errorMessage \<noteq> [] then errorMessage else name @ str '' check failed'') v)
          else (None, validateCheck name v))"

subsection \<open>validate\<close>

text \<open>
  \<open>Object.entries(this.validatorRules)\<close>: the three keys in the order of the default
  object, which the spread in the constructor keeps, each with the truthiness of its
  value. A configuration object is truthy.
\<close>

definition entry_truthy :: "hasLength_entry \<Rightarrow> bool" where
  "entry_truthy e = (case e of Bounds b \<Rightarrow> True | PrimitiveEntry t \<Rightarrow> t | NullishEntry \<Rightarrow> False)"

definition Object_entries :: "IValidatorRules \<Rightarrow> (ValidatorRules \<times> bool) list" where
  "Object_entries r =
     [(Rule_hasLength, entry_truthy (rule_hasLength r)),
      (Rule_isAlpha, rule_isAlpha r),
      (Rule_isEmail, rule_isEmail r)]"

text \<open>
  \<open>Object.keys(this)\<close>: the array of the instance's own enumerable property names, which
  are its five fields in the order of their declaration (the methods and the getters
  live on the prototype).
\<close>

definition Object_keys_this :: "jsstring list" where
  "Object_keys_this =
     map str [''input'', ''validatorRules'', ''validatorHandlers'', ''validatorSettings'',
              ''errors'']"

text \<open>
  \<open>key in array\<close> asks whether the array object has a property of that name: one of its
  indices \<open>0\<close>, ..., \<open>length - 1\<close>, its \<open>length\<close>, or a property inherited from
  \<open>Array.prototype\<close> or \<open>Object.prototype\<close> (\<open>inherited_array_properties\<close> lists their
  string-keyed members). It does not ask whether the array has an element equal to
  \<open>key\<close>.
\<close>

definition inherited_array_properties :: "jsstring list" where
  "inherited_array_properties =
     map str [''at'', ''concat'', ''constructor'', ''copyWithin'', ''entries'', ''every'',
              ''fill'', ''filter'', ''find'', ''findIndex'', ''findLast'', ''findLastIndex'',
              ''flat'', ''flatMap'', ''forEach'', ''includes'', ''indexOf'', ''join'', ''keys'',
              ''lastIndexOf'', ''map'', ''pop'', ''push'', ''reduce'', ''reduceRight'',
              ''reverse'', ''shift'', ''slice'', ''some'', ''sort'', ''splice'',
              ''toLocaleString'', ''toReversed'', ''toSorted'', ''toSpliced'', ''toString'',
              ''unshift'', ''values'', ''with'', ''hasOwnProperty'', ''isPrototypeOf'',
              ''propertyIsEnumerable'', ''valueOf'', ''__defineGetter__'',
              ''__defineSetter__'', ''__lookupGetter__'', ''__lookupSetter__'', ''__proto__'']"

definition js_in_array :: "jsstring \<Rightarrow> jsstring list \<Rightarrow> bool" where
  "js_in_array key arr =
     (key \<in> set (map decimal_digits [0..<length arr])
      \<or> key = str ''length''
      \<or> key \<in> set inherited_array_properties)"

text \<open>\<open>this[methodName]()\<close> for a key of the rule set.\<close>

fun call_method :: "ValidatorRules \<Rightarrow> InputValidator \<Rightarrow> outcome" where
  "call_method Rule_hasLength v = hasLength v"
| "call_method Rule_isAlpha v = isAlpha v"
| "call_method Rule_isEmail v = isEmail v"

text \<open>The body of the callback given to \<open>forEach\<close>.\<close>

definition validate_entry :: "ValidatorRules \<times> bool \<Rightarrow> InputValidator \<Rightarrow> outcome" where
  "validate_entry e v =
     (case e of (methodName, methodValue) \<Rightarrow>
        if \<not> methodValue then (None, v)
        else if js_in_array (rule_key methodName) Object_keys_this then call_method methodName v
        else (None, v))"

text \<open>\<open>forEach\<close> over a list; an exception of the callback ends the iteration.\<close>

fun forEach :: "('a \<Rightarrow> InputValidator \<Rightarrow> outcome) \<Rightarrow> 'a list \<Rightarrow> InputValidator \<Rightarrow> outcome" where
  "forEach f [] v = (None, v)"
| "forEach f (x # xs) v =
     (case f x v of
        (Some e, v') \<Rightarrow> (Some e, v')
      | (None, v') \<Rightarrow> forEach f xs v')"

definition set_dataset_isValid :: "jsstring \<Rightarrow> InputValidator \<Rightarrow> InputValidator" where
  "set_dataset_isValid x v =
     v\<lparr>input := map_option (\<lambda>el. el\<lparr>dataset_isValid := Some x\<rparr>) (input v)\<rparr>"

definition onValidationFinish :: "ErrorEntry list \<Rightarrow> InputValidator \<Rightarrow> InputValidator" where
  "onValidationFinish es v = v\<lparr>onValidationFinish_calls := onValidationFinish_calls v @ [es]\<rparr>"

definition validate :: "InputValidator \<Rightarrow> outcome" where
  "validate v =
     (case string_value v of
        None \<Rightarrow> (Some InputNotString, v)
      | Some s \<Rightarrow>
          (case forEach validate_entry (Object_entries (validatorRules v)) v of
             (Some e, v1) \<Rightarrow> (Some e, v1)
           | (None, v1) \<Rightarrow>
               (let v2 = set_dataset_isValid
                           (if errors v1 \<noteq> [] then str ''Invalid'' else str ''Valid'') v1
                in (None, onValidationFinish (errors v2) v2))))"

subsection \<open>Checks called one after another\<close>

text \<open>
  A caller may invoke the checks directly. \<open>check_call\<close> names one invocation with its
  arguments, \<open>run_check\<close> performs it, and \<open>run_checks\<close> performs a sequence of them,
  stopping at the first exception.
\<close>

datatype check_call =
    Call_hasLength
  | Call_isAlpha
  | Call_isEmail
  | Call_customCheck "jsstring \<Rightarrow> js_value" jsstring jsstring

fun run_check :: "check_call \<Rightarrow> InputValidator \<Rightarrow> outcome" where
  "run_check Call_hasLength v = hasLength v"
| "run_check Call_isAlpha v = isAlpha v"
| "run_check Call_isEmail v = isEmail v"
| "run_check (Call_customCheck fn name errorMessage) v = customCheck fn name errorMessage v"

fun call_name :: "check_call \<Rightarrow> jsstring" where
  "call_name Call_hasLength = str ''hasLength''"
| "call_name Call_isAlpha = str ''isAlpha''"
| "call_name Call_isEmail = str ''isEmail''"
| "call_name (Call_customCheck fn name errorMessage) = name"

definition run_checks :: "check_call list \<Rightarrow> InputValidator \<Rightarrow> outcome" where
  "run_checks cs v = forEach run_check cs v"

section \<open>The patterns in the words of the specification\<close>

text \<open>
  The specification describes what \<open>isAlpha\<close> and \<open>isEmail\<close> accept in words. These two
  predicates follow those words, not the source; they are compared with the patterns of
  the source below. \<open>spec_alpha\<close>: the value matches \<open>^[A-Za-z]*$\<close>, that is, each of its
  characters is one of \<open>A\<close>..\<open>Z\<close> or \<open>a\<close>..\<open>z\<close>. \<open>spec_email\<close>: the value is
  text, \<open>@\<close>, text, a dot, text, where each text is non-empty and holds neither white space
  nor \<open>@\<close>.
\<close>

definition spec_alpha :: "jsstring \<Rightarrow> bool" where
  "spec_alpha s = (\<forall>c \<in> set s. (0x41 \<le> c \<and> c \<le> 0x5A) \<or> (0x61 \<le> c \<and> c \<le> 0x7A))"

definition spec_email :: "jsstring \<Rightarrow> bool" where
  "spec_email s =
     (\<exists>a b c. s = a @ [0x40] @ b @ [0x2E] @ c \<and> a \<noteq> [] \<and> b \<noteq> [] \<and> c \<noteq> []
        \<and> (\<forall>x \<in> set (a @ b @ c). \<not> is_white_space x \<and> x \<noteq> 0x40))"

section \<open>Sample validators\<close>

text \<open>Concrete fields, predicates and validators at which the theorems below are instantiated.\<close>

definition text_field :: "jsstring \<Rightarrow> InputElement" where
  "text_field s = \<lparr>input_value = JString s, dataset_isValid = None\<rparr>"

definition alpha_validator :: InputValidator where
  "alpha_validator = new_InputValidator (text_field (str ''abc123'')) None (Some True) None None"

definition short_value_validator :: "Language \<Rightarrow> InputValidator" where
  "short_value_validator l =
     new_InputValidator (text_field (str ''ab''))
       (Some (Bounds \<lparr>exact_len = Some 5, min_len = Some 3, max_len = Some 1\<rparr>))
       None None (Some l)"

definition long_value_validator :: "Language \<Rightarrow> InputValidator" where
  "long_value_validator l =
     new_InputValidator (text_field (str ''abcdef''))
       (Some (Bounds \<lparr>exact_len = Some 4, min_len = Some 0, max_len = Some 3\<rparr>))
       None None (Some l)"

definition email_validator :: "jsstring \<Rightarrow> InputValidator" where
  "email_validator s = new_InputValidator (text_field s) None None (Some True) None"

definition number_validator :: InputValidator where
  "number_validator =
     new_InputValidator \<lparr>input_value = JNumber 5, dataset_isValid = None\<rparr>
       None (Some True) None None"

definition unbound_validator :: InputValidator where
  "unbound_validator = alpha_validator\<lparr>input := None\<rparr>"

definition unique_validator :: InputValidator where
  "unique_validator = new_InputValidator (text_field (str ''bob'')) None None None None"

definition unique_entry :: ErrorEntry where
  "unique_entry = \<lparr>checkName = str ''unique'', message = str ''taken''\<rparr>"

definition always_false :: "jsstring \<Rightarrow> js_value" where
  "always_false s = JBoolean False"

definition always_true :: "jsstring \<Rightarrow> js_value" where
  "always_true s = JBoolean True"

section \<open>What validate does\<close>

lemma rule_key_not_in_keys: "\<not> js_in_array (rule_key r) Object_keys_this"
  by (cases r)
    (simp_all add: js_in_array_def Object_keys_this_def inherited_array_properties_def str_def
      decimal_digits.simps upt_rec)

lemma validate_entry_skips: "validate_entry e v = (None, v)"
  by (cases e) (simp add: validate_entry_def rule_key_not_in_keys)

lemma forEach_validate_entry: "forEach validate_entry es v = (None, v)"
  by (induction es) (simp_all add: validate_entry_skips)

lemma validate_string:
  assumes "string_value v = Some s"
  shows "validate v =
    (None, onValidationFinish (errors v)
       (set_dataset_isValid (if errors v \<noteq> [] then str ''Invalid'' else str ''Valid'') v))"
  using assms
  by (simp add: validate_def forEach_validate_entry Let_def set_dataset_isValid_def)

lemma validate_not_string:
  assumes "string_value v = None"
  shows "validate v = (Some InputNotString, v)"
  using assms by (simp add: validate_def)

lemma string_value_set_dataset [simp]:
  "string_value (set_dataset_isValid x v) = string_value v"
  by (cases "input v") (simp_all add: string_value_def set_dataset_isValid_def)

lemma string_value_onValidationFinish [simp]:
  "string_value (onValidationFinish es v) = string_value v"
  by (simp add: string_value_def onValidationFinish_def)

lemma errors_after_validate: "errors (snd (validate v)) = errors v"
proof (cases "string_value v")
  case None
  then show ?thesis by (simp add: validate_not_string)
next
  case (Some s)
  then show ?thesis
    by (simp add: validate_string onValidationFinish_def set_dataset_isValid_def)
qed

lemma string_value_after_validate: "string_value (snd (validate v)) = string_value v"
proof (cases "string_value v")
  case None
  then show ?thesis by (simp add: validate_not_string)
next
  case (Some s)
  then show ?thesis by (simp add: validate_string)
qed

lemma string_value_alpha_validator: "string_value alpha_validator = Some (str ''abc123'')"
  by (simp add: alpha_validator_def new_InputValidator_def text_field_def string_value_def)

lemma errors_alpha_validator: "errors alpha_validator = []"
  by (simp add: alpha_validator_def new_InputValidator_def)

text \<open>
  C1. The claim: \<open>validate()\<close> runs every enabled rule. The code does not: the guard
  \<open>methodName in Object.keys(this)\<close> asks whether the array of the instance's field names
  has a property called \<open>hasLength\<close>, \<open>isAlpha\<close> or \<open>isEmail\<close>, which it never has, so no
  rule is called. Below, \<open>isAlpha\<close> is enabled and the value is \<open>abc123\<close>: \<open>validate\<close>
  returns with an empty error list, marks the field \<open>Valid\<close> and hands the empty list to the
  callback, while \<open>isAlpha\<close> called on the same validator records its error.
\<close>

theorem validate_skips_enabled_rule:
  "rule_isAlpha (validatorRules alpha_validator)
   \<and> string_value alpha_validator = Some (str ''abc123'')
   \<and> fst (validate alpha_validator) = None
   \<and> errors (snd (validate alpha_validator)) = []
   \<and> map_option dataset_isValid (input (snd (validate alpha_validator))) = Some (Some (str ''Valid''))
   \<and> onValidationFinish_calls (snd (validate alpha_validator)) = [[]]
   \<and> isAlpha alpha_validator =
       (None, alpha_validator\<lparr>errors :=
          [\<lparr>checkName = str ''isAlpha'',
            message = str ''Should contain only alphabetic letters''\<rparr>]\<rparr>)"
proof -
  have rule: "rule_isAlpha (validatorRules alpha_validator)"
    by (simp add: alpha_validator_def new_InputValidator_def)
  have ret: "fst (validate alpha_validator) = None"
    by (simp add: validate_string [OF string_value_alpha_validator])
  have errs: "errors (snd (validate alpha_validator)) = []"
    by (simp add: errors_after_validate errors_alpha_validator)
  have mark: "map_option dataset_isValid (input (snd (validate alpha_validator)))
      = Some (Some (str ''Valid''))"
    by (simp add: validate_string [OF string_value_alpha_validator] errors_alpha_validator
        onValidationFinish_def set_dataset_isValid_def)
      (simp add: alpha_validator_def new_InputValidator_def)
  have calls: "onValidationFinish_calls (snd (validate alpha_validator)) = [[]]"
    by (simp add: validate_string [OF string_value_alpha_validator] errors_alpha_validator
        onValidationFinish_def set_dataset_isValid_def)
      (simp add: alpha_validator_def new_InputValidator_def)
  have "\<not> regex_test isAlpha_regex (str ''abc123'')"
    by (simp add: str_def isAlpha_regex_def a_to_z_ignore_case_def canonicalize_def)
  then have direct: "isAlpha alpha_validator =
       (None, alpha_validator\<lparr>errors :=
          [\<lparr>checkName = str ''isAlpha'',
            message = str ''Should contain only alphabetic letters''\<rparr>]\<rparr>)"
    by (simp add: isAlpha_def string_value_alpha_validator addError_def errors_alpha_validator)
  from rule string_value_alpha_validator ret errs mark calls direct show ?thesis
    by (intro conjI)
qed

text \<open>
  C5. Running \<open>validate()\<close> twice in a row, the value unchanged, leaves the error list that
  the first run left; on a string-valued field both runs return. (The error list after
  \<open>validate\<close> is the list before it, by \<open>errors_after_validate\<close>.)
\<close>

theorem validate_idempotent:
  "errors (snd (validate (snd (validate v)))) = errors (snd (validate v))
   \<and> (string_value v \<noteq> None \<longrightarrow>
        fst (validate v) = None \<and> fst (validate (snd (validate v))) = None)"
proof -
  have "fst (validate w) = None" if "string_value w \<noteq> None" for w
    using that by (auto simp: validate_string)
  then show ?thesis
    by (simp add: errors_after_validate string_value_after_validate)
qed

theorem validate_idempotent_witness:
  "string_value alpha_validator \<noteq> None
   \<and> errors (snd (validate (snd (validate alpha_validator))))
       = errors (snd (validate alpha_validator))
   \<and> fst (validate alpha_validator) = None
   \<and> fst (validate (snd (validate alpha_validator))) = None"
  using validate_idempotent [of alpha_validator]
  by (simp add: string_value_alpha_validator)

text \<open>
  C6. On a string-valued field \<open>validate()\<close> returns, having called \<open>onValidationFinish\<close>
  once more than before, with the whole error list of the validator as its argument.
\<close>

theorem validate_calls_finish_once:
  assumes "string_value v = Some s"
  shows "fst (validate v) = None
    \<and> onValidationFinish_calls (snd (validate v))
        = onValidationFinish_calls v @ [errors (snd (validate v))]"
  using assms
  by (simp add: validate_string onValidationFinish_def set_dataset_isValid_def)

theorem validate_calls_finish_once_witness:
  "string_value alpha_validator = Some (str ''abc123'')
   \<and> fst (validate alpha_validator) = None
   \<and> onValidationFinish_calls (snd (validate alpha_validator))
       = onValidationFinish_calls alpha_validator @ [errors (snd (validate alpha_validator))]"
  using validate_calls_finish_once [OF string_value_alpha_validator]
  by (simp add: string_value_alpha_validator)

section \<open>The effect of one check on the error list\<close>

lemma errors_addError [simp]:
  "errors (addError n m v) = errors v @ [\<lparr>checkName = n, message = m\<rparr>]"
  by (simp add: addError_def)

lemma errors_validateCheck [simp]:
  "errors (validateCheck n v) = filter (\<lambda>e. checkName e \<noteq> n) (errors v)"
  by (simp add: validateCheck_def)

lemma string_value_addError [simp]: "string_value (addError n m v) = string_value v"
  by (simp add: addError_def string_value_def)

lemma string_value_validateCheck [simp]: "string_value (validateCheck n v) = string_value v"
  by (simp add: validateCheck_def string_value_def)

lemma hasLength_adds_or_clears:
  assumes "hasLength v = (None, v')"
  shows "(\<exists>m. v' = addError (str ''hasLength'') m v) \<or> v' = validateCheck (str ''hasLength'') v"
  using assms
  by (auto simp: hasLength_def Let_def split: option.splits if_splits)

lemma isAlpha_adds_or_clears:
  assumes "isAlpha v = (None, v')"
  shows "(\<exists>m. v' = addError (str ''isAlpha'') m v) \<or> v' = validateCheck (str ''isAlpha'') v"
  using assms
  by (auto simp: isAlpha_def Let_def split: option.splits if_splits)

lemma isEmail_adds_or_clears:
  assumes "isEmail v = (None, v')"
  shows "(\<exists>m. v' = addError (str ''isEmail'') m v) \<or> v' = validateCheck (str ''isEmail'') v"
  using assms
  by (auto simp: isEmail_def Let_def split: option.splits if_splits)

lemma customCheck_adds_or_clears:
  assumes "customCheck fn n msg v = (None, v')"
  shows "(\<exists>m. v' = addError n m v) \<or> v' = validateCheck n v"
  using assms
  by (auto simp: customCheck_def split: option.splits if_splits)

lemma run_check_adds_or_clears:
  assumes "run_check c v = (None, v')"
  shows "(\<exists>m. v' = addError (call_name c) m v) \<or> v' = validateCheck (call_name c) v"
  using assms
  by (cases c)
    (simp_all add: hasLength_adds_or_clears isAlpha_adds_or_clears isEmail_adds_or_clears
      customCheck_adds_or_clears)

lemma string_value_None_iff:
  "string_value v = None \<longleftrightarrow>
     input v = None \<or> (\<exists>el. input v = Some el \<and> (\<forall>s. input_value el \<noteq> JString s))"
  by (auto simp: string_value_def split: option.splits js_value.splits)

lemma filter_shorter: "filter P xs \<noteq> xs @ [x]"
proof
  assume "filter P xs = xs @ [x]"
  then have "length (filter P xs) = Suc (length xs)" by simp
  moreover have "length (filter P xs) \<le> length xs" by (rule length_filter_le)
  ultimately show False by simp
qed

text \<open>
  C2. The claim: the error list never holds two entries with the same \<open>checkName\<close>. It
  does: \<open>_addError\<close> pushes without looking, so \<open>isAlpha()\<close> run twice on \<open>abc123\<close> leaves
  two \<open>isAlpha\<close> entries.
\<close>

theorem repeated_failure_duplicates_entry:
  "\<not> distinct (map checkName
       (errors (snd (run_checks [Call_isAlpha, Call_isAlpha] alpha_validator))))"
proof -
  have bad: "\<not> regex_test isAlpha_regex (str ''abc123'')"
    by (simp add: str_def isAlpha_regex_def a_to_z_ignore_case_def canonicalize_def)
  have fail: "isAlpha v =
      (None, addError (str ''isAlpha'') (str ''Should contain only alphabetic letters'') v)"
    if "string_value v = Some (str ''abc123'')" for v
    using that bad by (simp add: isAlpha_def)
  show ?thesis
    by (simp add: run_checks_def fail string_value_alpha_validator errors_alpha_validator)
qed

text \<open>
  C2, as the code has it: a check that returns has either appended exactly one entry with
  its \<open>checkName\<close> at the end of the list (whether or not such an entry was there) or
  removed every entry with that \<open>checkName\<close>; entries with other names are kept as they
  were, in their order; and a run that starts from a list with no entry of that name leaves
  at most one.
\<close>

theorem check_run_adds_or_clears:
  assumes "run_check c v = (None, v')"
  shows "((\<exists>m. errors v' = errors v @ [\<lparr>checkName = call_name c, message = m\<rparr>])
          \<or> errors v' = filter (\<lambda>e. checkName e \<noteq> call_name c) (errors v))
    \<and> filter (\<lambda>e. checkName e \<noteq> call_name c) (errors v')
        = filter (\<lambda>e. checkName e \<noteq> call_name c) (errors v)
    \<and> (call_name c \<notin> checkName ` set (errors v) \<longrightarrow>
         length (filter (\<lambda>e. checkName e = call_name c) (errors v')) \<le> 1)"
proof -
  from run_check_adds_or_clears [OF assms]
  consider m where "v' = addError (call_name c) m v" | "v' = validateCheck (call_name c) v"
    by blast
  then show ?thesis
  proof cases
    case 1
    have "call_name c \<notin> checkName ` set (errors v) \<Longrightarrow>
        filter (\<lambda>e. checkName e = call_name c) (errors v) = []"
      by (force simp: filter_empty_conv image_iff)
    with 1 show ?thesis by auto
  next
    case 2
    then show ?thesis by (auto simp: filter_empty_conv)
  qed
qed

theorem check_run_adds_or_clears_witness:
  "run_check Call_isAlpha alpha_validator =
     (None, alpha_validator\<lparr>errors :=
        [\<lparr>checkName = str ''isAlpha'',
          message = str ''Should contain only alphabetic letters''\<rparr>]\<rparr>)
   \<and> call_name Call_isAlpha \<notin> checkName ` set (errors alpha_validator)
   \<and> length (filter (\<lambda>e. checkName e = call_name Call_isAlpha)
        (errors (alpha_validator\<lparr>errors :=
        [\<lparr>checkName = str ''isAlpha'',
          message = str ''Should contain only alphabetic letters''\<rparr>]\<rparr>))) \<le> 1"
proof -
  have bad: "\<not> regex_test isAlpha_regex (str ''abc123'')"
    by (simp add: str_def isAlpha_regex_def a_to_z_ignore_case_def canonicalize_def)
  have run: "run_check Call_isAlpha alpha_validator =
     (None, alpha_validator\<lparr>errors :=
        [\<lparr>checkName = str ''isAlpha'',
          message = str ''Should contain only alphabetic letters''\<rparr>]\<rparr>)"
    using bad
    by (simp add: isAlpha_def string_value_alpha_validator addError_def errors_alpha_validator)
  have none: "call_name Call_isAlpha \<notin> checkName ` set (errors alpha_validator)"
    by (simp add: errors_alpha_validator)
  from check_run_adds_or_clears [OF run] none
  have "length (filter (\<lambda>e. checkName e = call_name Call_isAlpha)
        (errors (alpha_validator\<lparr>errors :=
        [\<lparr>checkName = str ''isAlpha'',
          message = str ''Should contain only alphabetic letters''\<rparr>]\<rparr>))) \<le> 1"
    by blast
  with run none show ?thesis by (intro conjI)
qed

text \<open>
  C4. A check called on a validator whose field is missing or holds a value that is not a
  string throws the usage error and leaves the validator, its error list included, as it
  was; so does \<open>validate\<close>; and \<open>customCheck\<close> with an empty \<open>checkName\<close> throws one of
  the two usage errors and leaves the validator as it was.
\<close>

theorem usage_errors_thrown:
  "(input v = None \<or> (\<exists>el. input v = Some el \<and> (\<forall>s. input_value el \<noteq> JString s)) \<longrightarrow>
      hasLength v = (Some InputNotString, v)
      \<and> isAlpha v = (Some InputNotString, v)
      \<and> isEmail v = (Some InputNotString, v)
      \<and> customCheck fn name msg v = (Some InputNotString, v)
      \<and> validate v = (Some InputNotString, v))
   \<and> (customCheck fn [] msg v = (Some InputNotString, v)
      \<or> customCheck fn [] msg v = (Some CheckNameMissing, v))"
proof -
  have "hasLength v = (Some InputNotString, v) \<and> isAlpha v = (Some InputNotString, v)
      \<and> isEmail v = (Some InputNotString, v)
      \<and> customCheck fn name msg v = (Some InputNotString, v)
      \<and> validate v = (Some InputNotString, v)"
    if "string_value v = None"
    using that
    by (simp add: hasLength_def isAlpha_def isEmail_def customCheck_def validate_def)
  moreover have "customCheck fn [] msg v = (Some InputNotString, v)
      \<or> customCheck fn [] msg v = (Some CheckNameMissing, v)"
    by (cases "string_value v") (simp_all add: customCheck_def)
  ultimately show ?thesis
    unfolding string_value_None_iff by blast
qed

theorem usage_errors_thrown_witness:
  "(\<exists>el. input number_validator = Some el \<and> (\<forall>s. input_value el \<noteq> JString s))
   \<and> hasLength number_validator = (Some InputNotString, number_validator)
   \<and> isAlpha number_validator = (Some InputNotString, number_validator)
   \<and> isEmail number_validator = (Some InputNotString, number_validator)
   \<and> customCheck always_false (str ''unique'') (str ''taken'') number_validator
       = (Some InputNotString, number_validator)
   \<and> validate number_validator = (Some InputNotString, number_validator)
   \<and> input unbound_validator = None
   \<and> validate unbound_validator = (Some InputNotString, unbound_validator)"
proof -
  have a: "\<exists>el. input number_validator = Some el \<and> (\<forall>s. input_value el \<noteq> JString s)"
    by (simp add: number_validator_def new_InputValidator_def)
  have b: "input unbound_validator = None"
    by (simp add: unbound_validator_def)
  from a b
    usage_errors_thrown [of number_validator always_false "str ''unique''" "str ''taken''"]
    usage_errors_thrown [of unbound_validator always_false "str ''unique''" "str ''taken''"]
  show ?thesis by blast
qed

section \<open>hasLength\<close>

lemma string_value_settings [simp]:
  "string_value (v\<lparr>validatorSettings := x\<rparr>) = string_value v"
  by (simp add: string_value_def)

lemma hasLength_unfold:
  assumes "string_value v = Some s"
    and "read_bounds (rule_hasLength (validatorRules v)) = Some b"
  shows "hasLength v =
    (None,
     if js_less (length s) (min_len b) then
       addError (str ''hasLength'')
         (errorTextMessages_hasLength_min (min_len b) (currentLanguage (validatorSettings v))) v
     else if js_truthy_number (max_len b) \<and> js_greater (length s) (max_len b) then
       addError (str ''hasLength'')
         (str ''Should be no more than '' @ template_number (max_len b) @ str '' symbols'') v
     else if js_truthy_number (exact_len b) \<and> js_strict_neq (length s) (exact_len b) then
       addError (str ''hasLength'')
         (str ''Should be exactly '' @ template_number (exact_len b) @ str '' symbols'') v
     else validateCheck (str ''hasLength'') v)"
  using assms by (simp add: hasLength_def Let_def)

lemma digit_string: "n < 10 \<Longrightarrow> decimal_digits n = [of_nat (48 + n)]"
  by (simp add: decimal_digits.simps)

lemma string_value_long: "string_value (long_value_validator l) = Some (str ''abcdef'')"
  by (simp add: long_value_validator_def new_InputValidator_def text_field_def string_value_def)

lemma read_bounds_long:
  "read_bounds (rule_hasLength (validatorRules (long_value_validator l)))
     = Some \<lparr>exact_len = Some 4, min_len = Some 0, max_len = Some 3\<rparr>"
  by (simp add: long_value_validator_def new_InputValidator_def read_bounds_def)

lemma string_value_short: "string_value (short_value_validator l) = Some (str ''ab'')"
  by (simp add: short_value_validator_def new_InputValidator_def text_field_def string_value_def)

lemma read_bounds_short:
  "read_bounds (rule_hasLength (validatorRules (short_value_validator l)))
     = Some \<lparr>exact_len = Some 5, min_len = Some 3, max_len = Some 1\<rparr>"
  by (simp add: short_value_validator_def new_InputValidator_def read_bounds_def)

lemma settings_short:
  "(short_value_validator l)\<lparr>validatorSettings := \<lparr>currentLanguage = l'\<rparr>\<rparr> = short_value_validator l'"
  by (simp add: short_value_validator_def new_InputValidator_def)

lemma settings_long:
  "(long_value_validator l)\<lparr>validatorSettings := \<lparr>currentLanguage = l'\<rparr>\<rparr> = long_value_validator l'"
  by (simp add: long_value_validator_def new_InputValidator_def)

text \<open>
  C3. On a string value of length \<open>L\<close> and a configuration whose bounds are safe integers
  or absent, \<open>hasLength()\<close> returns and reports one condition at most, the first that
  holds of: \<open>L < min\<close> (the localised "too short" text), \<open>max\<close> set and
  \<open>L > max\<close> ("too long"), \<open>exact\<close> set and \<open>L \<noteq> exact\<close> ("wrong exact length"); when
  none holds it clears the entries of the check. From an empty list a value shorter than
  \<open>min\<close> gives exactly the one "too short" entry.
\<close>

theorem hasLength_precedence:
  assumes "string_value v = Some s"
    and "read_bounds (rule_hasLength (validatorRules v)) = Some b"
  shows "fst (hasLength v) = None
    \<and> (js_less (length s) (min_len b) \<longrightarrow>
         errors (snd (hasLength v)) =
           errors v @ [\<lparr>checkName = str ''hasLength'',
                        message = errorTextMessages_hasLength_min (min_len b)
                                    (currentLanguage (validatorSettings v))\<rparr>])
    \<and> (\<not> js_less (length s) (min_len b)
         \<and> js_truthy_number (max_len b) \<and> js_greater (length s) (max_len b) \<longrightarrow>
         errors (snd (hasLength v)) =
           errors v @ [\<lparr>checkName = str ''hasLength'',
                        message = str ''Should be no more than '' @ template_number (max_len b)
                                    @ str '' symbols''\<rparr>])
    \<and> (\<not> js_less (length s) (min_len b)
         \<and> \<not> (js_truthy_number (max_len b) \<and> js_greater (length s) (max_len b))
         \<and> js_truthy_number (exact_len b) \<and> js_strict_neq (length s) (exact_len b) \<longrightarrow>
         errors (snd (hasLength v)) =
           errors v @ [\<lparr>checkName = str ''hasLength'',
                        message = str ''Should be exactly '' @ template_number (exact_len b)
                                    @ str '' symbols''\<rparr>])
    \<and> (\<not> js_less (length s) (min_len b)
         \<and> \<not> (js_truthy_number (max_len b) \<and> js_greater (length s) (max_len b))
         \<and> \<not> (js_truthy_number (exact_len b) \<and> js_strict_neq (length s) (exact_len b)) \<longrightarrow>
         errors (snd (hasLength v)) =
           filter (\<lambda>e. checkName e \<noteq> str ''hasLength'') (errors v))
    \<and> (errors v = [] \<and> js_less (length s) (min_len b) \<longrightarrow>
         errors (snd (hasLength v)) =
           [\<lparr>checkName = str ''hasLength'',
             message = errorTextMessages_hasLength_min (min_len b)
                         (currentLanguage (validatorSettings v))\<rparr>])"
  unfolding hasLength_unfold [OF assms]
  by (simp add: addError_def validateCheck_def)

theorem hasLength_precedence_witness:
  "string_value (short_value_validator EN) = Some (str ''ab'')
   \<and> read_bounds (rule_hasLength (validatorRules (short_value_validator EN)))
       = Some \<lparr>exact_len = Some 5, min_len = Some 3, max_len = Some 1\<rparr>
   \<and> js_less (length (str ''ab'')) (Some 3)
   \<and> errors (short_value_validator EN) = []
   \<and> errors (snd (hasLength (short_value_validator EN))) =
       [\<lparr>checkName = str ''hasLength'',
         message = str ''Should be more than or equal to 3 symbols''\<rparr>]"
proof -
  have sv: "string_value (short_value_validator EN) = Some (str ''ab'')"
    by (simp add: short_value_validator_def new_InputValidator_def text_field_def string_value_def)
  have rb: "read_bounds (rule_hasLength (validatorRules (short_value_validator EN)))
       = Some \<lparr>exact_len = Some 5, min_len = Some 3, max_len = Some 1\<rparr>"
    by (simp add: short_value_validator_def new_InputValidator_def read_bounds_def)
  have lt: "js_less (length (str ''ab'')) (Some 3)"
    by (simp add: js_less_def str_def)
  have er: "errors (short_value_validator EN) = []"
    by (simp add: short_value_validator_def new_InputValidator_def)
  have lang: "currentLanguage (validatorSettings (short_value_validator EN)) = EN"
    by (simp add: short_value_validator_def new_InputValidator_def)
  have msg: "errorTextMessages_hasLength_min (Some 3) EN
      = str ''Should be more than or equal to 3 symbols''"
    by (simp add: errorTextMessages_hasLength_min_def template_number_def number_to_string_def digit_string str_def)
  from hasLength_precedence [OF sv rb] lt er lang msg show ?thesis
    using sv rb by simp
qed

lemma min_text_differs:
  "errorTextMessages_hasLength_min m EN \<noteq> errorTextMessages_hasLength_min m RU"
  by (simp add: errorTextMessages_hasLength_min_def str_def)

lemma max_text_differs:
  "str ''Should be no more than '' @ template_number m @ str '' symbols''
     \<noteq> errorTextMessages_hasLength_max m RU"
  by (simp add: errorTextMessages_hasLength_max_def str_def)

lemma exact_text_differs:
  "str ''Should be exactly '' @ template_number m @ str '' symbols''
     \<noteq> errorTextMessages_hasLength_exact m RU"
  by (simp add: errorTextMessages_hasLength_exact_def str_def)

text \<open>
  C10. For a configuration whose bounds are safe integers or absent: when \<open>hasLength()\<close>
  fails on \<open>min\<close>, the message is the entry of the message table
  for the current language, and the two languages' entries differ. When it fails on \<open>max\<close>
  or on \<open>exact\<close>, the message is the same English text whatever the current language is,
  and it is not the table's Russian entry.
\<close>

theorem hasLength_message_language:
  assumes "string_value v = Some s"
    and "read_bounds (rule_hasLength (validatorRules v)) = Some b"
  shows "(js_less (length s) (min_len b) \<longrightarrow>
           (\<forall>l. errors (snd (hasLength (v\<lparr>validatorSettings := \<lparr>currentLanguage = l\<rparr>\<rparr>))) =
                  errors v @ [\<lparr>checkName = str ''hasLength'',
                               message = errorTextMessages_hasLength_min (min_len b) l\<rparr>])
           \<and> errorTextMessages_hasLength_min (min_len b) EN
               \<noteq> errorTextMessages_hasLength_min (min_len b) RU)
    \<and> (\<not> js_less (length s) (min_len b)
         \<and> js_truthy_number (max_len b) \<and> js_greater (length s) (max_len b) \<longrightarrow>
           (\<forall>l. errors (snd (hasLength (v\<lparr>validatorSettings := \<lparr>currentLanguage = l\<rparr>\<rparr>))) =
                  errors v @ [\<lparr>checkName = str ''hasLength'',
                               message = str ''Should be no more than ''
                                 @ template_number (max_len b) @ str '' symbols''\<rparr>])
           \<and> str ''Should be no more than '' @ template_number (max_len b) @ str '' symbols''
               \<noteq> errorTextMessages_hasLength_max (max_len b) RU)
    \<and> (\<not> js_less (length s) (min_len b)
         \<and> \<not> (js_truthy_number (max_len b) \<and> js_greater (length s) (max_len b))
         \<and> js_truthy_number (exact_len b) \<and> js_strict_neq (length s) (exact_len b) \<longrightarrow>
           (\<forall>l. errors (snd (hasLength (v\<lparr>validatorSettings := \<lparr>currentLanguage = l\<rparr>\<rparr>))) =
                  errors v @ [\<lparr>checkName = str ''hasLength'',
                               message = str ''Should be exactly ''
                                 @ template_number (exact_len b) @ str '' symbols''\<rparr>])
           \<and> str ''Should be exactly '' @ template_number (exact_len b) @ str '' symbols''
               \<noteq> errorTextMessages_hasLength_exact (exact_len b) RU)"
proof -
  have run: "hasLength (v\<lparr>validatorSettings := \<lparr>currentLanguage = l\<rparr>\<rparr>) =
    (None,
     if js_less (length s) (min_len b) then
       addError (str ''hasLength'') (errorTextMessages_hasLength_min (min_len b) l)
         (v\<lparr>validatorSettings := \<lparr>currentLanguage = l\<rparr>\<rparr>)
     else if js_truthy_number (max_len b) \<and> js_greater (length s) (max_len b) then
       addError (str ''hasLength'')
         (str ''Should be no more than '' @ template_number (max_len b) @ str '' symbols'')
         (v\<lparr>validatorSettings := \<lparr>currentLanguage = l\<rparr>\<rparr>)
     else if js_truthy_number (exact_len b) \<and> js_strict_neq (length s) (exact_len b) then
       addError (str ''hasLength'')
         (str ''Should be exactly '' @ template_number (exact_len b) @ str '' symbols'')
         (v\<lparr>validatorSettings := \<lparr>currentLanguage = l\<rparr>\<rparr>)
     else validateCheck (str ''hasLength'') (v\<lparr>validatorSettings := \<lparr>currentLanguage = l\<rparr>\<rparr>))"
    for l
    using assms by (simp add: hasLength_def Let_def)
  show ?thesis
    unfolding run
    by (auto simp: addError_def min_text_differs max_text_differs exact_text_differs)
qed

theorem hasLength_message_language_witness:
  "string_value (short_value_validator EN) = Some (str ''ab'')
   \<and> read_bounds (rule_hasLength (validatorRules (short_value_validator EN)))
       = Some \<lparr>exact_len = Some 5, min_len = Some 3, max_len = Some 1\<rparr>
   \<and> js_less (length (str ''ab'')) (Some 3)
   \<and> errors (snd (hasLength (short_value_validator RU))) =
       [\<lparr>checkName = str ''hasLength'', message = errorTextMessages_hasLength_min (Some 3) RU\<rparr>]
   \<and> errors (snd (hasLength (short_value_validator EN))) =
       [\<lparr>checkName = str ''hasLength'',
         message = str ''Should be more than or equal to 3 symbols''\<rparr>]
   \<and> string_value (long_value_validator EN) = Some (str ''abcdef'')
   \<and> read_bounds (rule_hasLength (validatorRules (long_value_validator EN)))
       = Some \<lparr>exact_len = Some 4, min_len = Some 0, max_len = Some 3\<rparr>
   \<and> \<not> js_less (length (str ''abcdef'')) (Some 0)
   \<and> js_truthy_number (Some 3) \<and> js_greater (length (str ''abcdef'')) (Some 3)
   \<and> errors (snd (hasLength (long_value_validator RU))) =
       [\<lparr>checkName = str ''hasLength'', message = str ''Should be no more than 3 symbols''\<rparr>]
   \<and> errors (snd (hasLength (long_value_validator EN))) =
       [\<lparr>checkName = str ''hasLength'', message = str ''Should be no more than 3 symbols''\<rparr>]"
proof -
  note short = hasLength_message_language [OF string_value_short read_bounds_short, of EN]
  note long = hasLength_message_language [OF string_value_long read_bounds_long, of EN]
  have lt: "js_less (length (str ''ab'')) (Some 3)"
    by (simp add: js_less_def str_def)
  have ge: "\<not> js_less (length (str ''abcdef'')) (Some 0)"
    by (simp add: js_less_def)
  have tr: "js_truthy_number (Some 3)"
    by (simp add: js_truthy_number_def)
  have gt: "js_greater (length (str ''abcdef'')) (Some 3)"
    by (simp add: js_greater_def str_def)
  have es: "errors (short_value_validator EN) = []"
    by (simp add: short_value_validator_def new_InputValidator_def)
  have el: "errors (long_value_validator EN) = []"
    by (simp add: long_value_validator_def new_InputValidator_def)
  have m3: "errorTextMessages_hasLength_min (Some 3) EN
      = str ''Should be more than or equal to 3 symbols''"
    by (simp add: errorTextMessages_hasLength_min_def template_number_def number_to_string_def digit_string str_def)
  have x3: "str ''Should be no more than '' @ template_number (Some 3) @ str '' symbols''
      = str ''Should be no more than 3 symbols''"
    by (simp add: template_number_def number_to_string_def digit_string str_def)
  from short lt
  have s_all: "errors (snd (hasLength (short_value_validator l))) =
      [\<lparr>checkName = str ''hasLength'', message = errorTextMessages_hasLength_min (Some 3) l\<rparr>]"
    for l
    by (simp add: settings_short es)
  from long ge tr gt
  have l_all: "errors (snd (hasLength (long_value_validator l))) =
      [\<lparr>checkName = str ''hasLength'', message = str ''Should be no more than 3 symbols''\<rparr>]"
    for l
    by (simp add: settings_long el x3)
  from string_value_short [of EN] read_bounds_short [of EN] lt s_all [of RU]
    s_all [of EN, unfolded m3] string_value_long [of EN] read_bounds_long [of EN] ge tr gt
    l_all [of RU] l_all [of EN]
  show ?thesis by (intro conjI)
qed

section \<open>isAlpha and isEmail\<close>

lemma regex_test_ZeroOrMore:
  "regex_test (ZeroOrMore cls # ps) s
     \<longleftrightarrow> (\<exists>u w. s = u @ w \<and> (\<forall>x \<in> set u. cls x) \<and> regex_test ps w)"
proof (induction s)
  case Nil
  then show ?case by simp
next
  case (Cons x xs)
  show ?case
  proof
    assume "regex_test (ZeroOrMore cls # ps) (x # xs)"
    then consider "cls x" "regex_test (ZeroOrMore cls # ps) xs" | "regex_test ps (x # xs)"
      by auto
    then show "\<exists>u w. x # xs = u @ w \<and> (\<forall>x \<in> set u. cls x) \<and> regex_test ps w"
    proof cases
      case 1
      then obtain u w where "xs = u @ w" "\<forall>y \<in> set u. cls y" "regex_test ps w"
        using Cons.IH by blast
      with 1 have "x # xs = (x # u) @ w \<and> (\<forall>y \<in> set (x # u). cls y) \<and> regex_test ps w"
        by simp
      then show ?thesis by blast
    next
      case 2
      then have "x # xs = [] @ (x # xs) \<and> (\<forall>y \<in> set []. cls y) \<and> regex_test ps (x # xs)"
        by simp
      then show ?thesis by blast
    qed
  next
    assume "\<exists>u w. x # xs = u @ w \<and> (\<forall>x \<in> set u. cls x) \<and> regex_test ps w"
    then obtain u w where uw: "x # xs = u @ w" "\<forall>y \<in> set u. cls y" "regex_test ps w"
      by blast
    show "regex_test (ZeroOrMore cls # ps) (x # xs)"
    proof (cases u)
      case Nil
      with uw have "regex_test ps (x # xs)" by simp
      then show ?thesis by simp
    next
      case (Cons y ys)
      with uw have "x = y" "xs = ys @ w" "cls x" "\<forall>z \<in> set ys. cls z" by auto
      then have "regex_test (ZeroOrMore cls # ps) xs"
        using Cons.IH uw(3) by blast
      with \<open>cls x\<close> show ?thesis by simp
    qed
  qed
qed

lemma regex_test_OneOrMore:
  "regex_test (OneOrMore cls # ps) s
     \<longleftrightarrow> (\<exists>u w. u \<noteq> [] \<and> s = u @ w \<and> (\<forall>x \<in> set u. cls x) \<and> regex_test ps w)"
proof (cases s)
  case Nil
  then show ?thesis by simp
next
  case (Cons x xs)
  show ?thesis
  proof
    assume "regex_test (OneOrMore cls # ps) s"
    with Cons have "cls x" "regex_test (ZeroOrMore cls # ps) xs" by simp_all
    then obtain u w where "xs = u @ w" "\<forall>y \<in> set u. cls y" "regex_test ps w"
      using regex_test_ZeroOrMore by blast
    with \<open>cls x\<close> Cons
    have "x # u \<noteq> [] \<and> s = (x # u) @ w \<and> (\<forall>y \<in> set (x # u). cls y) \<and> regex_test ps w"
      by simp
    then show "\<exists>u w. u \<noteq> [] \<and> s = u @ w \<and> (\<forall>x \<in> set u. cls x) \<and> regex_test ps w"
      by blast
  next
    assume "\<exists>u w. u \<noteq> [] \<and> s = u @ w \<and> (\<forall>x \<in> set u. cls x) \<and> regex_test ps w"
    then obtain u w where uw: "u \<noteq> []" "s = u @ w" "\<forall>y \<in> set u. cls y" "regex_test ps w"
      by blast
    then obtain y ys where u: "u = y # ys" by (cases u) auto
    with uw Cons have "x = y" "xs = ys @ w" "cls x" "\<forall>z \<in> set ys. cls z" by auto
    then have "regex_test (ZeroOrMore cls # ps) xs"
      using regex_test_ZeroOrMore uw(4) by blast
    with \<open>cls x\<close> Cons show "regex_test (OneOrMore cls # ps) s" by simp
  qed
qed

lemma regex_test_OneChar:
  "regex_test (OneChar c # ps) s \<longleftrightarrow> (\<exists>w. s = c # w \<and> regex_test ps w)"
  by (cases s) auto

lemma regex_test_all: "regex_test [ZeroOrMore cls] s \<longleftrightarrow> (\<forall>x \<in> set s. cls x)"
  by (auto simp: regex_test_ZeroOrMore)

lemma a_to_z_ignore_case_iff:
  "a_to_z_ignore_case c \<longleftrightarrow> (0x41 \<le> c \<and> c \<le> 0x5A) \<or> (0x61 \<le> c \<and> c \<le> 0x7A)"
  unfolding a_to_z_ignore_case_def canonicalize_def
  by (auto simp: word_le_nat_alt unat_sub)

lemma isAlpha_regex_spec: "regex_test isAlpha_regex s \<longleftrightarrow> spec_alpha s"
  by (simp add: isAlpha_regex_def regex_test_all spec_alpha_def a_to_z_ignore_case_iff)

lemma isEmail_regex_spec: "regex_test isEmail_regex s \<longleftrightarrow> spec_email s"
proof
  assume "regex_test isEmail_regex s"
  then obtain a w1 where a: "a \<noteq> []" "s = a @ w1" "\<forall>x \<in> set a. not_space_or_at x"
    and "regex_test [OneChar 0x40, OneOrMore not_space_or_at, OneChar 0x2E, OneOrMore not_space_or_at] w1"
    unfolding isEmail_regex_def regex_test_OneOrMore [of _ "OneChar 0x40 # _"] by blast
  then obtain w2 where w1: "w1 = 0x40 # w2"
    and "regex_test [OneOrMore not_space_or_at, OneChar 0x2E, OneOrMore not_space_or_at] w2"
    unfolding regex_test_OneChar by blast
  then obtain b w3 where b: "b \<noteq> []" "w2 = b @ w3" "\<forall>x \<in> set b. not_space_or_at x"
    and "regex_test [OneChar 0x2E, OneOrMore not_space_or_at] w3"
    unfolding regex_test_OneOrMore [of _ "OneChar 0x2E # _"] by blast
  then obtain w4 where w3: "w3 = 0x2E # w4" and "regex_test [OneOrMore not_space_or_at] w4"
    unfolding regex_test_OneChar by blast
  then obtain c w5 where c: "c \<noteq> []" "w4 = c @ w5" "\<forall>x \<in> set c. not_space_or_at x"
    and "regex_test [] w5"
    unfolding regex_test_OneOrMore [of _ "[]"] by blast
  then have "w5 = []" by simp
  with a b c w1 w3 have "s = a @ [0x40] @ b @ [0x2E] @ c" by simp
  moreover from a b c have "\<forall>x \<in> set (a @ b @ c). \<not> is_white_space x \<and> x \<noteq> 0x40"
    by (auto simp: not_space_or_at_def)
  ultimately show "spec_email s"
    unfolding spec_email_def using a(1) b(1) c(1) by blast
next
  assume "spec_email s"
  then obtain a b c where s: "s = a @ [0x40] @ b @ [0x2E] @ c"
    and ne: "a \<noteq> []" "b \<noteq> []" "c \<noteq> []"
    and cls: "\<forall>x \<in> set (a @ b @ c). \<not> is_white_space x \<and> x \<noteq> 0x40"
    unfolding spec_email_def by blast
  from cls have pa: "\<forall>x \<in> set a. not_space_or_at x" and pb: "\<forall>x \<in> set b. not_space_or_at x"
    and pc: "\<forall>x \<in> set c. not_space_or_at x"
    by (auto simp: not_space_or_at_def)
  have "regex_test [OneOrMore not_space_or_at] c"
    unfolding regex_test_OneOrMore using ne(3) pc by auto
  then have "regex_test [OneChar 0x2E, OneOrMore not_space_or_at] ([0x2E] @ c)"
    by simp
  then have "regex_test [OneOrMore not_space_or_at, OneChar 0x2E, OneOrMore not_space_or_at]
               (b @ [0x2E] @ c)"
    unfolding regex_test_OneOrMore [of _ "OneChar 0x2E # _"] using ne(2) pb by blast
  then have "regex_test [OneChar 0x40, OneOrMore not_space_or_at, OneChar 0x2E, OneOrMore not_space_or_at]
               ([0x40] @ b @ [0x2E] @ c)"
    by simp
  then show "regex_test isEmail_regex s"
    unfolding isEmail_regex_def s regex_test_OneOrMore [of _ "OneChar 0x40 # _"]
    using ne(1) pa by blast
qed

text \<open>
  C7. On a string value \<open>isEmail()\<close> returns, and it records its error exactly when the
  value is not of the shape text, \<open>@\<close>, text, dot, text without white space or a further
  \<open>@\<close>; otherwise it clears the entries of the check. From an empty list \<open>a@b.com\<close> leaves
  no entry and \<open>a@@b\<close> leaves exactly one.
\<close>

theorem isEmail_error_iff:
  assumes "string_value v = Some s"
  shows "fst (isEmail v) = None
    \<and> (errors (snd (isEmail v)) =
          errors v @ [\<lparr>checkName = str ''isEmail'', message = str ''Incorrect email address''\<rparr>]
        \<longleftrightarrow> \<not> spec_email s)
    \<and> (spec_email s \<longrightarrow>
          errors (snd (isEmail v)) = filter (\<lambda>e. checkName e \<noteq> str ''isEmail'') (errors v))
    \<and> (errors v = [] \<and> s = str ''a@b.com'' \<longrightarrow> errors (snd (isEmail v)) = [])
    \<and> (errors v = [] \<and> s = str ''a@@b'' \<longrightarrow>
          errors (snd (isEmail v)) =
            [\<lparr>checkName = str ''isEmail'', message = str ''Incorrect email address''\<rparr>])"
proof -
  have ok: "regex_test isEmail_regex (str ''a@b.com'')"
    by (simp add: str_def isEmail_regex_def not_space_or_at_def is_white_space_def)
  have bad: "\<not> regex_test isEmail_regex (str ''a@@b'')"
    by (simp add: str_def isEmail_regex_def not_space_or_at_def is_white_space_def)
  show ?thesis
  proof (cases "regex_test isEmail_regex s")
    case True
    with assms have "isEmail v = (None, validateCheck (str ''isEmail'') v)"
      by (simp add: isEmail_def)
    with True bad show ?thesis
      by (auto simp: isEmail_regex_spec [symmetric] filter_shorter)
  next
    case False
    with assms have "isEmail v =
        (None, addError (str ''isEmail'') (str ''Incorrect email address'') v)"
      by (simp add: isEmail_def)
    with False ok show ?thesis
      by (auto simp: isEmail_regex_spec [symmetric])
  qed
qed

theorem isEmail_error_iff_witness:
  "string_value (email_validator (str ''a@@b'')) = Some (str ''a@@b'')
   \<and> errors (email_validator (str ''a@@b'')) = []
   \<and> errors (snd (isEmail (email_validator (str ''a@@b'')))) =
       [\<lparr>checkName = str ''isEmail'', message = str ''Incorrect email address''\<rparr>]
   \<and> string_value (email_validator (str ''a@b.com'')) = Some (str ''a@b.com'')
   \<and> errors (email_validator (str ''a@b.com'')) = []
   \<and> errors (snd (isEmail (email_validator (str ''a@b.com'')))) = []"
proof -
  have sv: "string_value (email_validator s) = Some s" for s
    by (simp add: email_validator_def new_InputValidator_def text_field_def string_value_def)
  have er: "errors (email_validator s) = []" for s
    by (simp add: email_validator_def new_InputValidator_def)
  from isEmail_error_iff [OF sv [of "str ''a@@b''"]] er [of "str ''a@@b''"]
  have bad: "errors (snd (isEmail (email_validator (str ''a@@b'')))) =
       [\<lparr>checkName = str ''isEmail'', message = str ''Incorrect email address''\<rparr>]"
    by blast
  from isEmail_error_iff [OF sv [of "str ''a@b.com''"]] er [of "str ''a@b.com''"]
  have good: "errors (snd (isEmail (email_validator (str ''a@b.com'')))) = []"
    by blast
  from sv [of "str ''a@@b''"] er [of "str ''a@@b''"] bad
    sv [of "str ''a@b.com''"] er [of "str ''a@b.com''"] good
  show ?thesis by (intro conjI)
qed

text \<open>
  C8. On a string value \<open>isAlpha()\<close> returns, and it records its error exactly when some
  character of the value is not one of \<open>A\<close>..\<open>Z\<close>, \<open>a\<close>..\<open>z\<close>; otherwise, and so for
  the empty string, it clears the entries of the check. From an empty list \<open>abc123\<close>
  leaves exactly one entry, named \<open>isAlpha\<close>.
\<close>

theorem isAlpha_error_iff:
  assumes "string_value v = Some s"
  shows "fst (isAlpha v) = None
    \<and> (errors (snd (isAlpha v)) =
          errors v @ [\<lparr>checkName = str ''isAlpha'',
                       message = str ''Should contain only alphabetic letters''\<rparr>]
        \<longleftrightarrow> \<not> spec_alpha s)
    \<and> (spec_alpha s \<longrightarrow>
          errors (snd (isAlpha v)) = filter (\<lambda>e. checkName e \<noteq> str ''isAlpha'') (errors v))
    \<and> (s = [] \<longrightarrow>
          errors (snd (isAlpha v)) = filter (\<lambda>e. checkName e \<noteq> str ''isAlpha'') (errors v))
    \<and> (errors v = [] \<and> s = str ''abc123'' \<longrightarrow>
          errors (snd (isAlpha v)) =
            [\<lparr>checkName = str ''isAlpha'',
              message = str ''Should contain only alphabetic letters''\<rparr>])"
proof -
  have bad: "\<not> regex_test isAlpha_regex (str ''abc123'')"
    by (simp add: str_def isAlpha_regex_def a_to_z_ignore_case_def canonicalize_def)
  have empty: "regex_test isAlpha_regex []"
    by (simp add: isAlpha_regex_def)
  show ?thesis
  proof (cases "regex_test isAlpha_regex s")
    case True
    with assms have "isAlpha v = (None, validateCheck (str ''isAlpha'') v)"
      by (simp add: isAlpha_def)
    with True bad show ?thesis
      by (auto simp: isAlpha_regex_spec [symmetric] filter_shorter)
  next
    case False
    with assms have "isAlpha v =
        (None, addError (str ''isAlpha'') (str ''Should contain only alphabetic letters'') v)"
      by (simp add: isAlpha_def)
    with False empty show ?thesis
      by (auto simp: isAlpha_regex_spec [symmetric])
  qed
qed

theorem isAlpha_error_iff_witness:
  "string_value alpha_validator = Some (str ''abc123'')
   \<and> errors alpha_validator = []
   \<and> errors (snd (isAlpha alpha_validator)) =
       [\<lparr>checkName = str ''isAlpha'',
         message = str ''Should contain only alphabetic letters''\<rparr>]"
proof -
  from isAlpha_error_iff [OF string_value_alpha_validator] errors_alpha_validator
  have "errors (snd (isAlpha alpha_validator)) =
       [\<lparr>checkName = str ''isAlpha'',
         message = str ''Should contain only alphabetic letters''\<rparr>]"
    by blast
  with string_value_alpha_validator errors_alpha_validator show ?thesis
    by (intro conjI)
qed

section \<open>customCheck\<close>

lemma string_value_unique_validator: "string_value unique_validator = Some (str ''bob'')"
  by (simp add: unique_validator_def new_InputValidator_def text_field_def string_value_def)

lemma errors_unique_validator: "errors unique_validator = []"
  by (simp add: unique_validator_def new_InputValidator_def)

lemma customCheck_fails:
  assumes "string_value v = Some s" and "name \<noteq> []" and "fn s \<noteq> JBoolean True"
  shows "customCheck fn name msg v =
    (None, addError name (if msg \<noteq> [] then msg else name @ str '' check failed'') v)"
  using assms by (simp add: customCheck_def)

lemma customCheck_passes:
  assumes "string_value v = Some s" and "name \<noteq> []" and "fn s = JBoolean True"
  shows "customCheck fn name msg v = (None, validateCheck name v)"
  using assms by (simp add: customCheck_def)

lemma str_nonempty: "str (c # cs) \<noteq> []"
  by (simp add: str_def)

text \<open>
  C9. The claim: after a failing run has added the entry \<open>unique\<close>/\<open>taken\<close>, a passing run
  removes that entry and no other. It removes every entry named \<open>unique\<close>: below, a first
  failing run leaves one entry, a second failing run adds the entry in question, and the
  passing run that follows empties the list, the older entry included.
\<close>

theorem customCheck_pass_removes_older_entry:
  "errors (snd (customCheck always_false (str ''unique'') (str ''taken'') unique_validator))
     = [unique_entry]
   \<and> errors (snd (customCheck always_false (str ''unique'') (str ''taken'')
        (snd (customCheck always_false (str ''unique'') (str ''taken'') unique_validator))))
     = [unique_entry, unique_entry]
   \<and> errors (snd (customCheck always_true (str ''unique'') (str ''taken'')
        (snd (customCheck always_false (str ''unique'') (str ''taken'')
          (snd (customCheck always_false (str ''unique'') (str ''taken'') unique_validator))))))
     = []
   \<and> errors (snd (customCheck always_true (str ''unique'') (str ''taken'')
        (snd (customCheck always_false (str ''unique'') (str ''taken'')
          (snd (customCheck always_false (str ''unique'') (str ''taken'') unique_validator))))))
     \<noteq> errors (snd (customCheck always_false (str ''unique'') (str ''taken'') unique_validator))"
proof -
  have n: "str ''unique'' \<noteq> []" by (simp add: str_def)
  have t: "str ''taken'' \<noteq> []" by (simp add: str_def)
  have f: "always_false s \<noteq> JBoolean True" for s by (simp add: always_false_def)
  have p: "always_true s = JBoolean True" for s by (simp add: always_true_def)
  show ?thesis
    by (simp add: customCheck_fails [OF _ n f] customCheck_passes [OF _ n p]
        string_value_unique_validator errors_unique_validator t unique_entry_def)
qed

text \<open>
  C9, as the code has it, for any non-empty \<open>checkName\<close>: a predicate result other than the
  boolean \<open>true\<close> appends one entry with the given message, or with the default text
  \<open><checkName> check failed\<close> when the message is empty; the result \<open>true\<close> removes every
  entry of that \<open>checkName\<close> and nothing else; so a failing run followed by a passing run
  leaves the list without its entries of that name, which is the list before the failing
  run when that list held no such entry.
\<close>

theorem customCheck_fail_then_pass:
  assumes "string_value v = Some s" and "name \<noteq> []"
  shows "(fn s \<noteq> JBoolean True \<longrightarrow>
            customCheck fn name msg v =
              (None, v\<lparr>errors := errors v @
                 [\<lparr>checkName = name,
                   message = (if msg \<noteq> [] then msg else name @ str '' check failed'')\<rparr>]\<rparr>))
    \<and> (fn s = JBoolean True \<longrightarrow>
            customCheck fn name msg v =
              (None, v\<lparr>errors := filter (\<lambda>e. checkName e \<noteq> name) (errors v)\<rparr>))
    \<and> (fn s \<noteq> JBoolean True \<and> fn' s = JBoolean True \<longrightarrow>
            errors (snd (customCheck fn' name msg' (snd (customCheck fn name msg v))))
              = filter (\<lambda>e. checkName e \<noteq> name) (errors v))
    \<and> (fn s \<noteq> JBoolean True \<and> fn' s = JBoolean True
          \<and> name \<notin> checkName ` set (errors v) \<longrightarrow>
            errors (snd (customCheck fn' name msg' (snd (customCheck fn name msg v))))
              = errors v)"
proof -
  have keep: "filter (\<lambda>e. checkName e \<noteq> name) (errors v) = errors v"
    if "name \<notin> checkName ` set (errors v)"
    using that by (force simp: filter_id_conv image_iff)
  have fail: "customCheck fn name msg v =
      (None, addError name (if msg \<noteq> [] then msg else name @ str '' check failed'') v)"
    if "fn s \<noteq> JBoolean True"
    using assms that by (rule customCheck_fails)
  have pass: "customCheck fn name msg v = (None, validateCheck name v)"
    if "fn s = JBoolean True"
    using assms that by (rule customCheck_passes)
  have both: "errors (snd (customCheck fn' name msg' (snd (customCheck fn name msg v))))
      = filter (\<lambda>e. checkName e \<noteq> name) (errors v)"
    if "fn s \<noteq> JBoolean True" and "fn' s = JBoolean True"
  proof -
    let ?v1 = "addError name (if msg \<noteq> [] then msg else name @ str '' check failed'') v"
    have "string_value ?v1 = Some s" using assms(1) by simp
    then have "customCheck fn' name msg' ?v1 = (None, validateCheck name ?v1)"
      using assms(2) that(2) by (rule customCheck_passes)
    with fail [OF that(1)] show ?thesis by simp
  qed
  from fail pass both keep show ?thesis
    by (simp add: addError_def validateCheck_def)
qed

theorem customCheck_fail_then_pass_witness:
  "string_value unique_validator = Some (str ''bob'')
   \<and> str ''unique'' \<noteq> []
   \<and> always_false (str ''bob'') \<noteq> JBoolean True
   \<and> always_true (str ''bob'') = JBoolean True
   \<and> str ''unique'' \<notin> checkName ` set (errors unique_validator)
   \<and> customCheck always_false (str ''unique'') (str ''taken'') unique_validator
       = (None, unique_validator\<lparr>errors := [unique_entry]\<rparr>)
   \<and> customCheck always_false (str ''unique'') [] unique_validator
       = (None, unique_validator\<lparr>errors :=
           [\<lparr>checkName = str ''unique'', message = str ''unique check failed''\<rparr>]\<rparr>)
   \<and> errors (snd (customCheck always_true (str ''unique'') (str ''taken'')
        (snd (customCheck always_false (str ''unique'') (str ''taken'') unique_validator))))
       = []"
proof -
  have n: "str ''unique'' \<noteq> []" by (simp add: str_def)
  have t: "str ''taken'' \<noteq> []" by (simp add: str_def)
  have f: "always_false (str ''bob'') \<noteq> JBoolean True" by (simp add: always_false_def)
  have p: "always_true (str ''bob'') = JBoolean True" by (simp add: always_true_def)
  have e: "str ''unique'' \<notin> checkName ` set (errors unique_validator)"
    by (simp add: errors_unique_validator)
  have d: "str ''unique'' @ str '' check failed'' = str ''unique check failed''"
    by (simp add: str_def)
  note thm1 = customCheck_fail_then_pass [OF string_value_unique_validator n,
      of always_false "str ''taken''" always_true "str ''taken''"]
  note thm2 = customCheck_fail_then_pass [OF string_value_unique_validator n,
      of always_false "[]" always_true "str ''taken''"]
  have c1: "customCheck always_false (str ''unique'') (str ''taken'') unique_validator
       = (None, unique_validator\<lparr>errors := [unique_entry]\<rparr>)"
    using thm1 f t by (simp add: errors_unique_validator unique_entry_def)
  have c2: "customCheck always_false (str ''unique'') [] unique_validator
       = (None, unique_validator\<lparr>errors :=
           [\<lparr>checkName = str ''unique'', message = str ''unique check failed''\<rparr>]\<rparr>)"
    using thm2 f d by (simp add: errors_unique_validator)
  have c3: "errors (snd (customCheck always_true (str ''unique'') (str ''taken'')
        (snd (customCheck always_false (str ''unique'') (str ''taken'') unique_validator))))
       = []"
  proof -
    from thm1 f p e
    have "errors (snd (customCheck always_true (str ''unique'') (str ''taken'')
        (snd (customCheck always_false (str ''unique'') (str ''taken'') unique_validator))))
       = errors unique_validator"
      by blast
    then show ?thesis by (simp only: errors_unique_validator)
  qed
  from string_value_unique_validator n f p e c1 c2 c3 show ?thesis
    by (intro conjI)
qed

end
